theory Spec2Isabelle
  imports Complex_Main
begin

section \<open>Values sent to the client\<close>

text \<open>
  Every handler answers with \<^verbatim>\<open>res.status(n).json(obj)\<close>. A JSON object is a list of
  key/value pairs, so that a key that is left out differs from a key that holds \<open>null\<close>.
\<close>

datatype json =
    JNull
  | JBool bool
  | JNum real
  | JStr string
  | JArr "json list"
  | JObj "(string \<times> json) list"

record response =
  status :: nat
  body :: json

definition success_body :: "json \<Rightarrow> json" where
  "success_body d = JObj [(''success'', JBool True), (''data'', d)]"

definition failure_body :: "string \<Rightarrow> json" where
  "failure_body m = JObj [(''success'', JBool False), (''error'', JStr m)]"

section \<open>Error objects and the error handler (middleware/error.js)\<close>

text \<open>
  A thrown JavaScript error, with the properties the handler reads: \<open>name\<close>, \<open>code\<close>
  (present on driver errors), \<open>message\<close>, \<open>statusCode\<close> (an own property of
  \<^verbatim>\<open>ErrorResponse\<close> only) and, on a Mongoose validation error, the messages of
  \<^verbatim>\<open>Object.values(error.errors)\<close>.
\<close>

record err =
  name :: string
  code :: "int option"
  message :: string
  statusCode :: "nat option"
  errors :: "string list"

text \<open>
  Modelled from the spec: the class \<^verbatim>\<open>ErrorResponse\<close> of utils/errorResponse, which is not
  among the sources. It is an \<^verbatim>\<open>Error\<close> that carries a message and a status code.
\<close>

definition ErrorResponse :: "string \<Rightarrow> nat \<Rightarrow> err" where
  "ErrorResponse m c =
     \<lparr>name = ''Error'', code = None, message = m, statusCode = Some c, errors = []\<rparr>"

text \<open>An array used as an error message is turned into text as JavaScript does: joined by commas.\<close>

fun join_comma :: "string list \<Rightarrow> string" where
  "join_comma [] = []"
| "join_comma [m] = m"
| "join_comma (m # ms) = m @ '','' @ join_comma ms"

text \<open>
  \<^verbatim>\<open>errorHandler\<close>: the three tests run in the source's order, each on the incoming
  \<open>error\<close>, a later match overwriting \<open>errors\<close>. \<^verbatim>\<open>x || d\<close> takes \<open>d\<close> when \<open>x\<close> is
  undefined, \<open>0\<close> or the empty string.
\<close>

definition errorHandler :: "err \<Rightarrow> response" where
  "errorHandler error =
     (let errors0 = error;
          errors1 = (if name error = ''CastError''
                     then ErrorResponse ''Resource not found'' 404 else errors0);
          errors2 = (if code error = Some 11000
                     then ErrorResponse ''Duplicate field value entered'' 400 else errors1);
          errors3 = (if name error = ''ValidationError''
                     then ErrorResponse (join_comma (errors error)) 400 else errors2)
      in \<lparr>status = (case statusCode errors3 of
                       None \<Rightarrow> 500
                     | Some c \<Rightarrow> if c = 0 then 500 else c),
          body = failure_body
                   (if message errors3 = [] then ''Server Error'' else message errors3)\<rparr>)"

section \<open>The stored documents\<close>

text \<open>
  Identifiers are the text of an ObjectId. A number of the program is a double; a stored
  number is the real value of a finite double. The operations on doubles round their
  results and are not part of the program: they are inputs of the model, see below. A
  document keeps the fields that the modelled code reads. On a bootcamp, \<open>None\<close> is an
  aggregate field that is absent.
\<close>

type_synonym oid = string

record bootcamp =
  averageCost :: "real option"
  averageRating :: "real option"

record course =
  course_id :: oid
  tuition :: real
  course_bootcamp :: oid
  course_user :: oid

record review =
  review_id :: oid
  review_title :: string
  review_text :: string
  rating :: real
  review_bootcamp :: oid
  review_user :: oid

record user =
  user_id :: oid
  user_name :: string
  email :: string
  role :: string

datatype log = LogText string | LogError err

text \<open>
  The state of the process: the four collections, what was written with
  \<^verbatim>\<open>console.log\<close>, and the exit code once the process has been told to exit.
\<close>

record world =
  bootcamps :: "oid \<rightharpoonup> bootcamp"
  courses :: "course list"
  reviews :: "review list"
  users :: "oid \<rightharpoonup> user"
  console :: "log list"
  exit_code :: "nat option"

text \<open>
  When the promise that a \<open>remove\<close> hook drops does its work: not at all (the hook does
  not fire), with its aggregation answered before the delete, or after it.
\<close>

datatype hook_run = NotFired | BeforeDelete | AfterDelete

text \<open>
  What lies outside the program is an input of the model:
  \<^item> the storage layer: the error with which the aggregation query, respectively the
    update of the parent, is rejected, if it is; and the value that the stage \<^verbatim>\<open>$avg\<close>
    yields for the numbers of a group;
  \<^item> the scheduling of a dropped promise, see \<open>remove_course\<close>;
  \<^item> the arithmetic of the runtime: the division and the multiplication of doubles.
  \<^verbatim>\<open>Math.ceil\<close> is exact on a finite double.
\<close>

record platform =
  aggregate_fault :: "err option"
  update_fault :: "err option"
  remove_hook :: hook_run
  avg_stage :: "real list \<Rightarrow> real"
  js_divide :: "real \<Rightarrow> real \<Rightarrow> real"
  js_times :: "real \<Rightarrow> real \<Rightarrow> real"

section \<open>The aggregate maintainer (models Course and Review)\<close>

text \<open>
  The pipeline \<^verbatim>\<open>[{$match: {bootcamp: id}}, {$group: {_id: "$bootcamp", avg: {$avg: f}}}]\<close>
  over the pairs (bootcamp, f) of a collection: no group when nothing matches, else the
  one group of the matched documents, with what \<^verbatim>\<open>$avg\<close> yields for their numbers.
\<close>

definition aggregate :: "platform \<Rightarrow> (oid \<times> real) list \<Rightarrow> oid \<Rightarrow> err + (oid \<times> real) list" where
  "aggregate f docs bootcampId =
     (case aggregate_fault f of
        Some e \<Rightarrow> Inl e
      | None \<Rightarrow>
          (let matched = filter (\<lambda>d. fst d = bootcampId) docs
           in if matched = [] then Inr []
              else Inr [(bootcampId, avg_stage f (map snd matched))]))"

text \<open>
  \<^verbatim>\<open>findByIdAndUpdate\<close> on the bootcamps: a parent that does not exist is no error, the
  call resolves to \<open>null\<close> and nothing is written.
\<close>

definition findByIdAndUpdate ::
  "err option \<Rightarrow> oid \<Rightarrow> (bootcamp \<Rightarrow> bootcamp) \<Rightarrow> world \<Rightarrow> err + world" where
  "findByIdAndUpdate fault bootcampId upd w =
     (case fault of
        Some e \<Rightarrow> Inl e
      | None \<Rightarrow>
          (case bootcamps w bootcampId of
             None \<Rightarrow> Inr w
           | Some b \<Rightarrow> Inr (w\<lparr>bootcamps := (bootcamps w)(bootcampId \<mapsto> upd b)\<rparr>)))"

definition console_log :: "log \<Rightarrow> world \<Rightarrow> world" where
  "console_log l w = w\<lparr>console := console w @ [l]\<rparr>"

text \<open>
  \<^verbatim>\<open>CourseSchema.statics.getAverageCost\<close>. The result is the outcome of the promise:
  \<open>Inl\<close> when it is rejected. The aggregation is awaited before the \<^verbatim>\<open>try\<close> block, so its
  rejection is the rejection of the whole call; only the update is inside the block.
  The stored value is \<^verbatim>\<open>Math.ceil(obj[0].averageCost / 10) * 10\<close>.
\<close>

definition getAverageCost :: "platform \<Rightarrow> oid \<Rightarrow> world \<Rightarrow> err + world" where
  "getAverageCost f bootcampId w =
     (case aggregate f (map (\<lambda>c. (course_bootcamp c, tuition c)) (courses w)) bootcampId of
        Inl e \<Rightarrow> Inl e
      | Inr obj \<Rightarrow>
          Inr (case obj of
                 g # _ \<Rightarrow>
                   (case findByIdAndUpdate (update_fault f) bootcampId
                           (\<lambda>b. b\<lparr>averageCost :=
                                   Some (js_times f (of_int \<lceil>js_divide f (snd g) 10\<rceil>) 10)\<rparr>) w of
                      Inl error \<Rightarrow> console_log (LogError error) w
                    | Inr w' \<Rightarrow> w')
               | [] \<Rightarrow> console_log (LogText (''No courses found for bootcamp '' @ bootcampId)) w))"

text \<open>
  \<^verbatim>\<open>ReviewSchema.statics.getAverageRating\<close>: the same, with \<^verbatim>\<open>obj[0].averageRating\<close>
  stored as it is.
\<close>

definition getAverageRating :: "platform \<Rightarrow> oid \<Rightarrow> world \<Rightarrow> err + world" where
  "getAverageRating f bootcampId w =
     (case aggregate f (map (\<lambda>r. (review_bootcamp r, rating r)) (reviews w)) bootcampId of
        Inl e \<Rightarrow> Inl e
      | Inr obj \<Rightarrow>
          Inr (case obj of
                 g # _ \<Rightarrow>
                   (case findByIdAndUpdate (update_fault f) bootcampId
                           (\<lambda>b. b\<lparr>averageRating := Some (snd g)\<rparr>) w of
                      Inl error \<Rightarrow> console_log (LogError error) w
                    | Inr w' \<Rightarrow> w')
               | [] \<Rightarrow> console_log (LogText (''No ratings found for bootcamp '' @ bootcampId)) w))"

definition tuitions_of :: "world \<Rightarrow> oid \<Rightarrow> real list" where
  "tuitions_of w b = map tuition (filter (\<lambda>c. course_bootcamp c = b) (courses w))"


section \<open>Lifecycle hooks and child mutations\<close>

text \<open>
  server.js, run as the main module, answers a promise rejection that nobody handles
  with a log line, closes the server and exits with code 1.
\<close>

definition unhandledRejection :: "err \<Rightarrow> world \<Rightarrow> world" where
  "unhandledRejection e w =
     (console_log (LogText (''Error: '' @ message e)) w)\<lparr>exit_code := Some 1\<rparr>"

text \<open>
  A hook calls the maintainer and neither awaits nor returns its promise: the hook, and
  with it the mutation, goes on whatever the outcome, and a rejection is one that nobody
  handles. \<open>drop_promise w p\<close> is the state once the promise \<open>p\<close>, started in \<open>w\<close>, has
  settled.
\<close>

definition drop_promise :: "world \<Rightarrow> err + world \<Rightarrow> world" where
  "drop_promise w p = (case p of Inl e \<Rightarrow> unhandledRejection e w | Inr w' \<Rightarrow> w')"

definition course_post_save :: "platform \<Rightarrow> course \<Rightarrow> world \<Rightarrow> world" where
  "course_post_save f this w = drop_promise w (getAverageCost f (course_bootcamp this) w)"

definition course_pre_remove :: "platform \<Rightarrow> course \<Rightarrow> world \<Rightarrow> world" where
  "course_pre_remove f this w = drop_promise w (getAverageCost f (course_bootcamp this) w)"

definition review_post_save :: "platform \<Rightarrow> review \<Rightarrow> world \<Rightarrow> world" where
  "review_post_save f this w = drop_promise w (getAverageRating f (review_bootcamp this) w)"

definition review_pre_remove :: "platform \<Rightarrow> review \<Rightarrow> world \<Rightarrow> world" where
  "review_pre_remove f this w = drop_promise w (getAverageRating f (review_bootcamp this) w)"

text \<open>
  Saving a new course: the insert, then the hook after \<open>save\<close>, whose work follows the
  insert.
\<close>

definition save_course :: "platform \<Rightarrow> course \<Rightarrow> world \<Rightarrow> world" where
  "save_course f c w = course_post_save f c (w\<lparr>courses := courses w @ [c]\<rparr>)"

definition delete_course :: "course \<Rightarrow> world \<Rightarrow> world" where
  "delete_course c w = w\<lparr>courses := filter (\<lambda>x. course_id x \<noteq> course_id c) (courses w)\<rparr>"

text \<open>
  Removing a course. The hook is registered before \<open>remove\<close>; it starts the maintainer and
  drops the promise, and the delete goes on at once. The source fixes neither whether
  the aggregation of the maintainer is answered before or after the delete, nor whether
  the hook fires: Mongoose runs the middleware of \<open>remove\<close> for the \<open>remove\<close> of a
  document and not for \<open>deleteOne\<close>, the call with which the source deletes. The case is
  the input \<open>remove_hook\<close>; the state is the one after the delete and the promise.
\<close>

definition remove_course :: "platform \<Rightarrow> course \<Rightarrow> world \<Rightarrow> world" where
  "remove_course f c w =
     (case remove_hook f of
        NotFired \<Rightarrow> delete_course c w
      | BeforeDelete \<Rightarrow> delete_course c (course_pre_remove f c w)
      | AfterDelete \<Rightarrow> course_pre_remove f c (delete_course c w))"

text \<open>
  The error of the driver when an insert violates a unique index, and the error of
  Mongoose when the validators of a schema fail (with their messages).
\<close>

definition duplicate_key :: err where
  "duplicate_key =
     \<lparr>name = ''MongoServerError'', code = Some 11000,
      message = ''E11000 duplicate key error'', statusCode = None, errors = []\<rparr>"

definition validation_error :: "string list \<Rightarrow> err" where
  "validation_error ms =
     \<lparr>name = ''ValidationError'', code = None, message = ''Validation failed'',
      statusCode = None, errors = ms\<rparr>"

text \<open>
  \<^verbatim>\<open>ReviewSchema.index({ bootcamp: 1, user: 1 }, { unique: true })\<close>: an insert whose pair
  (bootcamp, user) is already stored is refused with the duplicate key error, nothing
  is written and no hook runs.
\<close>

definition same_pair :: "review \<Rightarrow> review \<Rightarrow> bool" where
  "same_pair x r \<longleftrightarrow> review_bootcamp x = review_bootcamp r \<and> review_user x = review_user r"

definition insert_review :: "platform \<Rightarrow> review \<Rightarrow> world \<Rightarrow> err + world" where
  "insert_review f r w =
     (if \<exists>x \<in> set (reviews w). same_pair x r then Inl duplicate_key
      else Inr (review_post_save f r (w\<lparr>reviews := reviews w @ [r]\<rparr>)))"

definition delete_review :: "review \<Rightarrow> world \<Rightarrow> world" where
  "delete_review r w = w\<lparr>reviews := filter (\<lambda>x. review_id x \<noteq> review_id r) (reviews w)\<rparr>"

text \<open>Removing a review: as for a course.\<close>

definition remove_review :: "platform \<Rightarrow> review \<Rightarrow> world \<Rightarrow> world" where
  "remove_review f r w =
     (case remove_hook f of
        NotFired \<Rightarrow> delete_review r w
      | BeforeDelete \<Rightarrow> delete_review r (review_pre_remove f r w)
      | AfterDelete \<Rightarrow> review_pre_remove f r (delete_review r w))"

text \<open>
  \<^verbatim>\<open>Model.create\<close>: the validators of the schema run first. They belong to Mongoose and
  are a parameter here: \<open>validate d\<close> is the list of the messages of the validators that
  \<open>d\<close> fails, empty when \<open>d\<close> is valid.
\<close>

definition Course_create ::
  "(course \<Rightarrow> string list) \<Rightarrow> platform \<Rightarrow> course \<Rightarrow> world \<Rightarrow> err + world" where
  "Course_create validate f c w =
     (if validate c \<noteq> [] then Inl (validation_error (validate c)) else Inr (save_course f c w))"

definition Review_create ::
  "(review \<Rightarrow> string list) \<Rightarrow> platform \<Rightarrow> review \<Rightarrow> world \<Rightarrow> err + world" where
  "Review_create validate f r w =
     (if validate r \<noteq> [] then Inl (validation_error (validate r)) else insert_review f r w)"

text \<open>A sequence of child creations and removals, each with its hook.\<close>

datatype mutation =
    CreateCourse course
  | RemoveCourse course
  | CreateReview review
  | RemoveReview review

fun apply_mutation :: "platform \<Rightarrow> mutation \<Rightarrow> world \<Rightarrow> world" where
  "apply_mutation f (CreateCourse c) w = save_course f c w"
| "apply_mutation f (RemoveCourse c) w = remove_course f c w"
| "apply_mutation f (CreateReview r) w =
     (case insert_review f r w of Inl e \<Rightarrow> w | Inr w' \<Rightarrow> w')"
| "apply_mutation f (RemoveReview r) w = remove_review f r w"

fun run :: "platform \<Rightarrow> mutation list \<Rightarrow> world \<Rightarrow> world" where
  "run f [] w = w"
| "run f (m # ms) w = run f ms (apply_mutation f m w)"

section \<open>Access control\<close>

text \<open>
  Modelled from the spec: the middleware \<^verbatim>\<open>protect\<close> and \<^verbatim>\<open>authorize\<close> of middleware/auth,
  which is not among the sources. \<open>verify\<close> is the token service: the subject of a
  token that is valid and not expired. A missing or invalid token, and a subject that is
  no account any more, are \<open>Unauthorized\<close>; on success the account is attached to the
  request.
\<close>

definition protect :: "(string \<Rightarrow> oid option) \<Rightarrow> world \<Rightarrow> string option \<Rightarrow> err + user" where
  "protect verify w token =
     (case token of
        None \<Rightarrow> Inl (ErrorResponse ''Not authorized to access this route'' 401)
      | Some t \<Rightarrow>
          (case verify t of
             None \<Rightarrow> Inl (ErrorResponse ''Not authorized to access this route'' 401)
           | Some uid \<Rightarrow>
               (case users w uid of
                  None \<Rightarrow> Inl (ErrorResponse ''Not authorized to access this route'' 401)
                | Some u \<Rightarrow> Inr u)))"

text \<open>Modelled from the spec: the role gate, for the allow-list of a route.\<close>

definition authorize :: "string list \<Rightarrow> user \<Rightarrow> err + unit" where
  "authorize roles u =
     (if role u \<in> set roles then Inr ()
      else Inl (ErrorResponse
                  (''User role '' @ role u @ '' is not authorized to access this route'') 403))"

text \<open>
  Modelled from the spec: the ownership gate of the controllers of owned resources
  (controllers/reviews is not among the sources). The account must be the owner or hold
  the administrator role, which the program writes \<^verbatim>\<open>admin\<close>.
\<close>

definition ownership_gate :: "oid \<Rightarrow> user \<Rightarrow> err + unit" where
  "ownership_gate owner u =
     (if user_id u = owner \<or> role u = ''admin'' then Inr ()
      else Inl (ErrorResponse ''Not authorized to access this route'' 401))"

section \<open>The users controller and its router (controllers/users.js)\<close>

text \<open>
  \<^verbatim>\<open>Model.findById(req.params.id)\<close>: the path parameter is cast to an identifier first.
  The cast belongs to the storage layer and is a parameter: \<open>cast s = None\<close> when \<open>s\<close> is
  malformed, and then the query is rejected with a \<^verbatim>\<open>CastError\<close>.
\<close>

definition CastError :: "string \<Rightarrow> err" where
  "CastError s =
     \<lparr>name = ''CastError'', code = None,
      message = ''Cast to ObjectId failed for value '' @ s, statusCode = None, errors = []\<rparr>"

definition findById :: "(string \<Rightarrow> oid option) \<Rightarrow> (oid \<rightharpoonup> 'a) \<Rightarrow> string \<Rightarrow> err + (oid \<times> 'a option)" where
  "findById cast coll s =
     (case cast s of None \<Rightarrow> Inl (CastError s) | Some i \<Rightarrow> Inr (i, coll i))"

definition user_json :: "user \<Rightarrow> json" where
  "user_json u =
     JObj [(''_id'', JStr (user_id u)), (''name'', JStr (user_name u)),
           (''email'', JStr (email u)), (''role'', JStr (role u))]"

text \<open>
  A handler wrapped in \<^verbatim>\<open>asyncHandler\<close> either answers (and may have written to the store)
  or hands an error to \<^verbatim>\<open>next\<close>, which is \<open>Inl\<close>.
\<close>

definition getUser :: "(string \<Rightarrow> oid option) \<Rightarrow> string \<Rightarrow> world \<Rightarrow> err + response \<times> world" where
  "getUser cast pid w =
     (case findById cast (users w) pid of
        Inl e \<Rightarrow> Inl e
      | Inr (i, user) \<Rightarrow>
          Inr (\<lparr>status = 200,
                body = success_body (case user of None \<Rightarrow> JNull | Some u \<Rightarrow> user_json u)\<rparr>, w))"

definition deleteUser :: "(string \<Rightarrow> oid option) \<Rightarrow> string \<Rightarrow> world \<Rightarrow> err + response \<times> world" where
  "deleteUser cast pid w =
     (case findById cast (users w) pid of
        Inl e \<Rightarrow> Inl e
      | Inr (i, user) \<Rightarrow>
          (case user of
             None \<Rightarrow> Inl (ErrorResponse ''Resource not found'' 404)
           | Some u \<Rightarrow>
               Inr (\<lparr>status = 200, body = success_body (JObj [])\<rparr>,
                    w\<lparr>users := (users w)(i := None)\<rparr>)))"

text \<open>
  \<^verbatim>\<open>User.create(req.body)\<close> and \<^verbatim>\<open>User.findByIdAndUpdate(req.params.id, req.body, ...)\<close>
  depend on the user schema, which is not among the sources: what they do with a body of
  type \<open>'b\<close> is a parameter. \<open>User_create\<close> is the whole of \<open>create\<close>; \<open>User_update\<close> is
  what \<open>findByIdAndUpdate\<close> does once the identifier is cast (the cast of the update, the
  validators, the write), resolving to the updated user or to \<open>null\<close>. The conditions of a
  query are cast before anything is done with its update, so a malformed identifier is a
  \<^verbatim>\<open>CastError\<close> whatever the body.
\<close>

record 'b user_model =
  User_create :: "'b \<Rightarrow> world \<Rightarrow> err + user \<times> world"
  User_update :: "oid \<Rightarrow> 'b \<Rightarrow> world \<Rightarrow> err + user option \<times> world"

definition createUser :: "'b user_model \<Rightarrow> 'b \<Rightarrow> world \<Rightarrow> err + response \<times> world" where
  "createUser um b w =
     (case User_create um b w of
        Inl e \<Rightarrow> Inl e
      | Inr (user, w') \<Rightarrow> Inr (\<lparr>status = 201, body = success_body (user_json user)\<rparr>, w'))"

definition updateUser ::
  "(string \<Rightarrow> oid option) \<Rightarrow> 'b user_model \<Rightarrow> string \<Rightarrow> 'b \<Rightarrow> world \<Rightarrow> err + response \<times> world" where
  "updateUser cast um pid b w =
     (case cast pid of
        None \<Rightarrow> Inl (CastError pid)
      | Some i \<Rightarrow>
          (case User_update um i b w of
             Inl e \<Rightarrow> Inl e
           | Inr (user, w') \<Rightarrow>
               Inr (\<lparr>status = 200,
                     body = success_body (case user of None \<Rightarrow> JNull | Some u \<Rightarrow> user_json u)\<rparr>,
                    w')))"

text \<open>
  An error handed to \<^verbatim>\<open>next\<close> reaches \<^verbatim>\<open>errorHandler\<close>, mounted last in server.js; the
  store is as it was.
\<close>

definition respond :: "world \<Rightarrow> err + response \<times> world \<Rightarrow> response \<times> world" where
  "respond w r = (case r of Inl e \<Rightarrow> (errorHandler e, w) | Inr rw \<Rightarrow> rw)"

text \<open>
  The router of /api/v1/users: \<^verbatim>\<open>router.use(protect); router.use(authorize("admin"))\<close>
  before every route. \<open>listing\<close> is \<^verbatim>\<open>res.advancedResults\<close>, set by the listing
  middleware.
\<close>

datatype 'b users_route =
    GET_users
  | POST_users 'b
  | GET_user string
  | PUT_user string 'b
  | DELETE_user string

definition users_router ::
  "(string \<Rightarrow> oid option) \<Rightarrow> (string \<Rightarrow> oid option) \<Rightarrow> 'b user_model \<Rightarrow> json \<Rightarrow>
     string option \<Rightarrow> 'b users_route \<Rightarrow> world \<Rightarrow> response \<times> world" where
  "users_router verify cast um listing token route w =
     (case protect verify w token of
        Inl e \<Rightarrow> (errorHandler e, w)
      | Inr u \<Rightarrow>
          (case authorize [''admin''] u of
             Inl e \<Rightarrow> (errorHandler e, w)
           | Inr _ \<Rightarrow>
               respond w
                 (case route of
                    GET_users \<Rightarrow> Inr (\<lparr>status = 200, body = listing\<rparr>, w)
                  | POST_users b \<Rightarrow> createUser um b w
                  | GET_user pid \<Rightarrow> getUser cast pid w
                  | PUT_user pid b \<Rightarrow> updateUser cast um pid b w
                  | DELETE_user pid \<Rightarrow> deleteUser cast pid w)))"

section \<open>Reading, updating and deleting a review\<close>

record review_update =
  new_title :: "string option"
  new_text :: "string option"
  new_rating :: "real option"

definition apply_update :: "review_update \<Rightarrow> review \<Rightarrow> review" where
  "apply_update up r =
     r\<lparr>review_title := (case new_title up of None \<Rightarrow> review_title r | Some t \<Rightarrow> t),
       review_text := (case new_text up of None \<Rightarrow> review_text r | Some t \<Rightarrow> t),
       rating := (case new_rating up of None \<Rightarrow> rating r | Some x \<Rightarrow> x)\<rparr>"

definition review_json :: "review \<Rightarrow> json" where
  "review_json r =
     JObj [(''_id'', JStr (review_id r)), (''title'', JStr (review_title r)),
           (''text'', JStr (review_text r)), (''rating'', JNum (rating r)),
           (''bootcamp'', JStr (review_bootcamp r)), (''user'', JStr (review_user r))]"

definition find_review :: "world \<Rightarrow> oid \<Rightarrow> review option" where
  "find_review w i = find (\<lambda>r. review_id r = i) (reviews w)"

text \<open>
  Modelled from the spec: the handlers of PUT and DELETE /reviews/:id of
  controllers/reviews, which is not among the sources. The review is looked up (the
  tests give the message when there is none), the ownership gate runs, and only then
  the review is changed or removed. \<open>u\<close> is the account that \<open>protect\<close> attached.
\<close>

definition updateReview ::
  "(string \<Rightarrow> oid option) \<Rightarrow> user \<Rightarrow> string \<Rightarrow> review_update \<Rightarrow> world \<Rightarrow> err + response \<times> world" where
  "updateReview cast u pid up w =
     (case cast pid of
        None \<Rightarrow> Inl (CastError pid)
      | Some i \<Rightarrow>
          (case find_review w i of
             None \<Rightarrow> Inl (ErrorResponse (''No review with the id of '' @ pid) 404)
           | Some r \<Rightarrow>
               (case ownership_gate (review_user r) u of
                  Inl e \<Rightarrow> Inl e
                | Inr _ \<Rightarrow>
                    Inr (\<lparr>status = 200, body = success_body (review_json (apply_update up r))\<rparr>,
                         w\<lparr>reviews := map (\<lambda>x. if review_id x = i then apply_update up x else x)
                                         (reviews w)\<rparr>))))"

definition deleteReview ::
  "(string \<Rightarrow> oid option) \<Rightarrow> platform \<Rightarrow> user \<Rightarrow> string \<Rightarrow> world \<Rightarrow> err + response \<times> world" where
  "deleteReview cast f u pid w =
     (case cast pid of
        None \<Rightarrow> Inl (CastError pid)
      | Some i \<Rightarrow>
          (case find_review w i of
             None \<Rightarrow> Inl (ErrorResponse (''No review with the id of '' @ pid) 404)
           | Some r \<Rightarrow>
               (case ownership_gate (review_user r) u of
                  Inl e \<Rightarrow> Inl e
                | Inr _ \<Rightarrow>
                    Inr (\<lparr>status = 200, body = success_body (JObj [])\<rparr>, remove_review f r w))))"

text \<open>
  Modelled from the spec: the handler of GET /reviews/:id of controllers/reviews, a
  route that the tests reach without a token. The tests give the message when there is
  no such review.
\<close>

definition getReview :: "(string \<Rightarrow> oid option) \<Rightarrow> string \<Rightarrow> world \<Rightarrow> err + response \<times> world" where
  "getReview cast pid w =
     (case cast pid of
        None \<Rightarrow> Inl (CastError pid)
      | Some i \<Rightarrow>
          (case find_review w i of
             None \<Rightarrow> Inl (ErrorResponse (''No review found with the id of '' @ pid) 404)
           | Some r \<Rightarrow> Inr (\<lparr>status = 200, body = success_body (review_json r)\<rparr>, w)))"

section \<open>The pager of the listing middleware\<close>

text \<open>
  Modelled from the spec: the paging of middleware/advancedResults, which is not among
  the sources. \<open>page_param\<close> and \<open>limit_param\<close> are the numbers read from the query
  string, \<open>None\<close> when the key is absent or its value is no number; the defaults are 1
  and 25. \<open>skip = (page - 1) * limit\<close> and \<open>take = limit\<close>.
\<close>

record page_query =
  page_param :: "int option"
  limit_param :: "int option"

definition page_of :: "page_query \<Rightarrow> int" where
  "page_of q = (case page_param q of None \<Rightarrow> 1 | Some p \<Rightarrow> p)"

definition limit_of :: "page_query \<Rightarrow> int" where
  "limit_of q = (case limit_param q of None \<Rightarrow> 25 | Some l \<Rightarrow> l)"

definition skip_of :: "page_query \<Rightarrow> int" where
  "skip_of q = (page_of q - 1) * limit_of q"

definition page_ref :: "int \<Rightarrow> int \<Rightarrow> json" where
  "page_ref p l = JObj [(''page'', JNum (of_int p)), (''limit'', JNum (of_int l))]"

text \<open>
  Modelled from the spec: the navigation metadata, the key/value pairs of the
  \<open>pagination\<close> object. \<open>total_count\<close> is the result of the count query.
\<close>

definition pagination :: "page_query \<Rightarrow> int \<Rightarrow> (string \<times> json) list" where
  "pagination q total_count =
     (if skip_of q + limit_of q < total_count
      then [(''next'', page_ref (page_of q + 1) (limit_of q))] else []) @
     (if page_of q > 1
      then [(''prev'', page_ref (page_of q - 1) (limit_of q))] else [])"

text \<open>
  Modelled from the spec: the result of a listing. \<open>rows\<close> are the documents that match
  the compiled filter, projected and in the order of the sort.
\<close>

definition advancedResults :: "page_query \<Rightarrow> json list \<Rightarrow> json" where
  "advancedResults q rows =
     (let data = take (nat (limit_of q)) (drop (nat (skip_of q)) rows)
      in JObj [(''success'', JBool True), (''count'', JNum (of_nat (length data))),
               (''pagination'', JObj (pagination q (int (length rows)))),
               (''data'', JArr data)])"

section \<open>The arithmetic of doubles\<close>

text \<open>
  The arithmetic of the examples: IEEE 754 binary64 on finite values, with rounding to
  the nearest double and ties to the even significand. \<open>binade x\<close> is the exponent of
  \<open>x\<close>, not below that of the subnormal numbers, and \<open>ulp_of x\<close> the distance of the
  doubles around \<open>x\<close>. A result beyond the largest double, which is \<open>Infinity\<close> in the
  program, and the sign of zero are outside it.
\<close>

definition round_even :: "real \<Rightarrow> int" where
  "round_even y =
     (let n = \<lfloor>y\<rfloor>; d = y - of_int n
      in if d < 1 / 2 then n else if 1 / 2 < d then n + 1 else if even n then n else n + 1)"

definition binade :: "real \<Rightarrow> int" where
  "binade x = max \<lfloor>log 2 \<bar>x\<bar>\<rfloor> (- 1022)"

definition ulp_of :: "real \<Rightarrow> real" where
  "ulp_of x = 2 powr of_int (binade x - 52)"

definition to_double :: "real \<Rightarrow> real" where
  "to_double x = (if x = 0 then 0 else of_int (round_even (x / ulp_of x)) * ulp_of x)"

definition double_divide :: "real \<Rightarrow> real \<Rightarrow> real" where
  "double_divide x y = to_double (x / y)"

definition double_times :: "real \<Rightarrow> real \<Rightarrow> real" where
  "double_times x y = to_double (x * y)"

text \<open>The stage \<^verbatim>\<open>$avg\<close> on doubles: their sum as a double, divided by their number.\<close>

definition double_avg :: "real list \<Rightarrow> real" where
  "double_avg xs = double_divide (to_double (sum_list xs)) (of_nat (length xs))"

text \<open>
  Storage without failures, the delete of the source (by \<open>deleteOne\<close>, for which the
  hook of \<open>remove\<close> does not fire) and the arithmetic of doubles.
\<close>

definition no_faults :: platform where
  "no_faults =
     \<lparr>aggregate_fault = None, update_fault = None, remove_hook = NotFired,
      avg_stage = double_avg, js_divide = double_divide, js_times = double_times\<rparr>"

section \<open>Example data\<close>

definition bootcamp0 :: bootcamp where
  "bootcamp0 = \<lparr>averageCost = None, averageRating = None\<rparr>"

definition admin0 :: user where
  "admin0 = \<lparr>user_id = ''u0'', user_name = ''Admin'', email = ''admin@x.io'', role = ''admin''\<rparr>"

definition greg :: user where
  "greg = \<lparr>user_id = ''u1'', user_name = ''Greg'', email = ''greg@gmail.com'', role = ''user''\<rparr>"

definition sasha :: user where
  "sasha = \<lparr>user_id = ''u2'', user_name = ''Sasha Ryan'', email = ''sasha@gmail.com'',
            role = ''publisher''\<rparr>"

definition world0 :: world where
  "world0 = \<lparr>bootcamps = [''b1'' \<mapsto> bootcamp0], courses = [], reviews = [],
             users = [''u0'' \<mapsto> admin0, ''u1'' \<mapsto> greg, ''u2'' \<mapsto> sasha],
             console = [], exit_code = None\<rparr>"

definition course12 :: course where
  "course12 = \<lparr>course_id = ''c1'', tuition = 12, course_bootcamp = ''b1'', course_user = ''u2''\<rparr>"

definition course18 :: course where
  "course18 = \<lparr>course_id = ''c2'', tuition = 18, course_bootcamp = ''b1'', course_user = ''u2''\<rparr>"

definition review6 :: review where
  "review6 = \<lparr>review_id = ''r1'', review_title = ''Great job'', review_text = ''I learned a lot'',
              rating = 6, review_bootcamp = ''b1'', review_user = ''u1''\<rparr>"

definition review8 :: review where
  "review8 = \<lparr>review_id = ''r2'', review_title = ''Well done'', review_text = ''Excellent course'',
              rating = 8, review_bootcamp = ''b1'', review_user = ''u1''\<rparr>"

definition review9 :: review where
  "review9 = \<lparr>review_id = ''r3'', review_title = ''Solid'', review_text = ''Worth it'',
              rating = 9, review_bootcamp = ''b1'', review_user = ''u2''\<rparr>"

definition storage_down :: err where
  "storage_down =
     \<lparr>name = ''MongoNetworkError'', code = None, message = ''connection closed'',
      statusCode = None, errors = []\<rparr>"

text \<open>The token service of the examples: the token is the text of the identifier.\<close>

definition verify0 :: "string \<Rightarrow> oid option" where
  "verify0 t = (if t \<in> {''u0'', ''u1'', ''u2''} then Some t else None)"

text \<open>The cast of the examples: an identifier is two characters long.\<close>

definition cast0 :: "string \<Rightarrow> oid option" where
  "cast0 s = (if length s = 2 then Some s else None)"

definition world12_18 :: world where
  "world12_18 = world0\<lparr>courses := [course12, course18]\<rparr>"

definition world6_9 :: world where
  "world6_9 = world0\<lparr>reviews := [review6, review9]\<rparr>"

text \<open>The same with the hook of \<open>remove\<close> in each of its cases.\<close>

definition hooked :: "hook_run \<Rightarrow> platform" where
  "hooked t = no_faults\<lparr>remove_hook := t\<rparr>"

definition aggregate_down :: platform where
  "aggregate_down = no_faults\<lparr>aggregate_fault := Some storage_down\<rparr>"


text \<open>Two courses whose costs are the doubles nearest to 6.53 and 13.47.\<close>

definition course653 :: course where
  "course653 = \<lparr>course_id = ''c3'', tuition = 7352126391682335 / 1125899906842624,
                course_bootcamp = ''b1'', course_user = ''u2''\<rparr>"

definition course1347 :: course where
  "course1347 = \<lparr>course_id = ''c4'', tuition = 7582935872585073 / 562949953421312,
                 course_bootcamp = ''b1'', course_user = ''u2''\<rparr>"

definition world653 :: world where
  "world653 = world0\<lparr>courses := [course653, course1347]\<rparr>"

text \<open>Three reviews with the ratings 1, 2 and 2.\<close>

definition review1 :: review where
  "review1 = \<lparr>review_id = ''r4'', review_title = ''Poor'', review_text = ''No'',
              rating = 1, review_bootcamp = ''b1'', review_user = ''u0''\<rparr>"

definition review2a :: review where
  "review2a = \<lparr>review_id = ''r5'', review_title = ''Weak'', review_text = ''Hardly'',
               rating = 2, review_bootcamp = ''b1'', review_user = ''u1''\<rparr>"

definition review2b :: review where
  "review2b = \<lparr>review_id = ''r6'', review_title = ''Weak'', review_text = ''Hardly'',
               rating = 2, review_bootcamp = ''b1'', review_user = ''u2''\<rparr>"

definition world122 :: world where
  "world122 = world0\<lparr>reviews := [review1, review2a, review2b]\<rparr>"

text \<open>A user model for the examples: every body is refused by a validator.\<close>

definition um0 :: "unit user_model" where
  "um0 = \<lparr>User_create = (\<lambda>b w. Inl (validation_error [''Please add a password''])),
           User_update = (\<lambda>i b w. Inl (validation_error [''Please add a valid email'']))\<rparr>"

definition world_r6 :: world where
  "world_r6 = world0\<lparr>bootcamps := [''b1'' \<mapsto> bootcamp0\<lparr>averageRating := Some 6\<rparr>],
                     reviews := [review6]\<rparr>"

text \<open>The invariant of the unique index: no two stored reviews share bootcamp and user.\<close>

definition pairs_unique :: "world \<Rightarrow> bool" where
  "pairs_unique w \<longleftrightarrow> distinct (map (\<lambda>r. (review_bootcamp r, review_user r)) (reviews w))"

lemmas example_defs =
  world0_def world12_18_def world6_9_def bootcamp0_def course12_def course18_def review6_def
  review8_def review9_def no_faults_def aggregate_down_def storage_down_def
  world653_def course653_def course1347_def world122_def review1_def review2a_def review2b_def

lemmas maintainer_defs =
  save_course_def remove_course_def delete_course_def course_post_save_def course_pre_remove_def
  insert_review_def remove_review_def delete_review_def review_post_save_def
  review_pre_remove_def same_pair_def
  drop_promise_def unhandledRejection_def console_log_def
  getAverageCost_def getAverageRating_def aggregate_def findByIdAndUpdate_def

section \<open>Rounding to a double\<close>

text \<open>
  Within one binade the doubles are the multiples of a power of two; this evaluates
  \<open>to_double\<close> on a number whose binade is known.
\<close>

lemma binade_eval:
  assumes "2 ^ k \<le> \<bar>x\<bar>" and "\<bar>x\<bar> < 2 ^ Suc k"
  shows "binade x = int k"
proof -
  have "(0::real) < 2 ^ k" by simp
  with assms(1) have pos: "0 < \<bar>x\<bar>" by linarith
  have "\<lfloor>log 2 \<bar>x\<bar>\<rfloor> = int k"
    using assms pos by (simp add: floor_log_eq_powr_iff powr_realpow powr_add)
  then show ?thesis by (simp add: binade_def)
qed

lemma to_double_eval:
  assumes "2 ^ k \<le> \<bar>x\<bar>" and "\<bar>x\<bar> < 2 ^ Suc k" and "k \<le> 52"
  shows "to_double x = of_int (round_even (x * 2 ^ (52 - k))) / 2 ^ (52 - k)"
proof -
  have "(0::real) < 2 ^ k" by simp
  with assms(1) have nz: "x \<noteq> 0" by linarith
  have "ulp_of x = 2 powr (- real (52 - k))"
    using assms(3) by (simp add: ulp_of_def binade_eval [OF assms(1,2)] of_nat_diff)
  also have "\<dots> = 1 / 2 ^ (52 - k)"
    by (simp add: powr_minus powr_realpow divide_simps)
  finally have u: "ulp_of x = 1 / 2 ^ (52 - k)" .
  show ?thesis using nz by (simp add: to_double_def u)
qed


lemma to_double_1 [simp]: "to_double 1 = 1"
  by (subst to_double_eval [where k = 0]) (simp_all add: round_even_def)

lemma to_double_2 [simp]: "to_double 2 = 2"
  by (subst to_double_eval [where k = 1]) (simp_all add: round_even_def)

lemma to_double_5 [simp]: "to_double 5 = 5"
  by (subst to_double_eval [where k = 2]) (simp_all add: round_even_def)

lemma to_double_6 [simp]: "to_double 6 = 6"
  by (subst to_double_eval [where k = 2]) (simp_all add: round_even_def)

lemma to_double_10 [simp]: "to_double 10 = 10"
  by (subst to_double_eval [where k = 3]) (simp_all add: round_even_def)

lemma to_double_12 [simp]: "to_double 12 = 12"
  by (subst to_double_eval [where k = 3]) (simp_all add: round_even_def)

lemma to_double_15 [simp]: "to_double 15 = 15"
  by (subst to_double_eval [where k = 3]) (simp_all add: round_even_def)

lemma to_double_20 [simp]: "to_double 20 = 20"
  by (subst to_double_eval [where k = 4]) (simp_all add: round_even_def)

lemma to_double_30 [simp]: "to_double 30 = 30"
  by (subst to_double_eval [where k = 4]) (simp_all add: round_even_def)

lemma to_double_3_2 [simp]: "to_double (3 / 2) = 3 / 2"
  by (subst to_double_eval [where k = 0]) (simp_all add: round_even_def)

lemma to_double_15_2 [simp]: "to_double (15 / 2) = 15 / 2"
  by (subst to_double_eval [where k = 2]) (simp_all add: round_even_def)

lemma to_double_6_5 [simp]: "to_double (6 / 5) = 5404319552844595 / 4503599627370496"
  by (subst to_double_eval [where k = 0]) (simp_all add: round_even_def Let_def)

lemma to_double_5_3 [simp]: "to_double (5 / 3) = 7505999378950827 / 4503599627370496"
  by (subst to_double_eval [where k = 0]) (simp_all add: round_even_def Let_def)


lemma sum_653_1347:
  "(7352126391682335 / 1125899906842624 + 7582935872585073 / 562949953421312 :: real) =
     22517998136852481 / 1125899906842624"
  by simp





lemma ulp_pos [simp]: "0 < ulp_of x"
  by (simp add: ulp_of_def)

lemma ulp_nz [simp]: "ulp_of x \<noteq> 0"
  using ulp_pos [of x] by linarith












lemmas double_defs = double_avg_def double_divide_def double_times_def







lemma double_avg_12: "double_avg [12] = 12"
  by (simp add: double_defs)

lemma double_avg_6: "double_avg [6] = 6"
  by (simp add: double_defs)

lemma ceil10_12: "double_times (of_int \<lceil>double_divide 12 10\<rceil>) 10 = 20"
  by (simp add: double_defs)

lemma ceil10_15: "double_times (of_int \<lceil>double_divide 15 10\<rceil>) 10 = 20"
  by (simp add: double_defs)


section \<open>The aggregation query\<close>

lemma aggregate_ok:
  "aggregate_fault f = None \<Longrightarrow>
     aggregate f docs b =
       Inr (if filter (\<lambda>d. fst d = b) docs = [] then []
            else [(b, avg_stage f (map snd (filter (\<lambda>d. fst d = b) docs)))])"
  by (simp add: aggregate_def Let_def)

lemma course_pairs:
  "map snd (filter (\<lambda>d. fst d = b) (map (\<lambda>c. (course_bootcamp c, tuition c)) (courses w))) =
     tuitions_of w b"
  unfolding tuitions_of_def by (simp add: filter_map comp_def)


lemma course_pairs_Nil:
  "filter (\<lambda>d. fst d = b) (map (\<lambda>c. (course_bootcamp c, tuition c)) (courses w)) = [] \<longleftrightarrow>
     tuitions_of w b = []"
  unfolding tuitions_of_def by (simp add: filter_map comp_def)


lemma aggregate_courses:
  "aggregate_fault f = None \<Longrightarrow>
     aggregate f (map (\<lambda>c. (course_bootcamp c, tuition c)) (courses w)) b =
       Inr (if tuitions_of w b = [] then [] else [(b, avg_stage f (tuitions_of w b))])"
  by (simp only: aggregate_ok course_pairs course_pairs_Nil)


section \<open>What the maintainer writes\<close>

lemma getAverageCost_children:
  assumes "aggregate_fault f = None" and "tuitions_of w b \<noteq> []"
  shows "getAverageCost f b w =
           Inr (case findByIdAndUpdate (update_fault f) b
                       (\<lambda>p. p\<lparr>averageCost :=
                               Some (js_times f
                                 (of_int \<lceil>js_divide f (avg_stage f (tuitions_of w b)) 10\<rceil>) 10)\<rparr>) w of
                  Inl error \<Rightarrow> console_log (LogError error) w
                | Inr w' \<Rightarrow> w')"
  using assms by (simp add: getAverageCost_def aggregate_courses)








lemma no_faults_fields [simp]:
  "aggregate_fault no_faults = None" "update_fault no_faults = None"
  "remove_hook no_faults = NotFired" "avg_stage no_faults = double_avg"
  "js_divide no_faults = double_divide" "js_times no_faults = double_times"
  by (simp_all add: no_faults_def)







section \<open>A parent without children\<close>

lemma hooked_fields [simp]:
  "aggregate_fault (hooked t) = None" "update_fault (hooked t) = None"
  "remove_hook (hooked t) = t" "avg_stage (hooked t) = double_avg"
  "js_divide (hooked t) = double_divide" "js_times (hooked t) = double_times"
  by (simp_all add: hooked_def)






section \<open>Failures of the storage layer\<close>

text \<open>
  With a successful aggregation the maintainer always resolves: a failing update is
  caught and logged, a parent that is gone is no error at all.
\<close>

lemma getAverageCost_resolves:
  "aggregate_fault f = None \<Longrightarrow> \<exists>w'. getAverageCost f b w = Inr w'"
  by (simp add: getAverageCost_def aggregate_def Let_def)

lemma getAverageRating_resolves:
  "aggregate_fault f = None \<Longrightarrow> \<exists>w'. getAverageRating f b w = Inr w'"
  by (simp add: getAverageRating_def aggregate_def Let_def)

lemma update_fault_logged:
  assumes "aggregate_fault f = None" and "update_fault f = Some e" and "tuitions_of w b \<noteq> []"
  shows "getAverageCost f b w = Inr (w\<lparr>console := console w @ [LogError e]\<rparr>)"
  using assms by (simp add: getAverageCost_children findByIdAndUpdate_def console_log_def)

text \<open>
  Whatever the storage layer does, a hook leaves the children as the mutation made them:
  a saved course stays saved.
\<close>

lemma courses_drop_getAverageCost [simp]:
  "courses (drop_promise w (getAverageCost f b w)) = courses w"
  by (simp add: drop_promise_def getAverageCost_def aggregate_def findByIdAndUpdate_def
      unhandledRejection_def console_log_def Let_def
      split: option.splits list.splits sum.splits)

lemma save_course_keeps_child: "courses (save_course f c w) = courses w @ [c]"
  by (simp add: save_course_def course_post_save_def)

text \<open>A failing aggregation is outside the \<^verbatim>\<open>try\<close> block: the call is rejected.\<close>

lemma getAverageCost_rejects:
  "aggregate_fault f = Some e \<Longrightarrow> getAverageCost f b w = Inl e"
  by (simp add: getAverageCost_def aggregate_def)

lemma getAverageRating_rejects:
  "aggregate_fault f = Some e \<Longrightarrow> getAverageRating f b w = Inl e"
  by (simp add: getAverageRating_def aggregate_def)

text \<open>
  C4, evaluated where it fails. The aggregation query is rejected because the
  connection is closed. \<open>getAverageCost\<close> and \<open>getAverageRating\<close> are rejected with that
  error instead of logging it. The course is saved all the same, since the hook does not
  await the maintainer; but the rejection is one that nobody handles, and server.js
  answers it by logging and by exiting with code 1.
\<close>

theorem aggregate_fault_escapes:
  "getAverageCost aggregate_down ''b1'' world12_18 = Inl storage_down \<and>
   getAverageRating aggregate_down ''b1'' world6_9 = Inl storage_down \<and>
   save_course aggregate_down course12 world0 =
     world0\<lparr>courses := [course12], console := [LogText ''Error: connection closed''],
            exit_code := Some 1\<rparr>"
  by (simp add: maintainer_defs example_defs)

section \<open>The error handler\<close>

lemma errorHandler_ErrorResponse:
  "c \<noteq> 0 \<Longrightarrow> m \<noteq> [] \<Longrightarrow>
     errorHandler (ErrorResponse m c) = \<lparr>status = c, body = failure_body m\<rparr>"
  by (simp add: errorHandler_def ErrorResponse_def)

lemma errorHandler_CastError:
  "name e = ''CastError'' \<Longrightarrow> code e \<noteq> Some 11000 \<Longrightarrow>
     errorHandler e = \<lparr>status = 404, body = failure_body ''Resource not found''\<rparr>"
  by (simp add: errorHandler_def ErrorResponse_def)

lemma errorHandler_duplicate_key:
  "code e = Some 11000 \<Longrightarrow> name e \<noteq> ''ValidationError'' \<Longrightarrow>
     errorHandler e = \<lparr>status = 400, body = failure_body ''Duplicate field value entered''\<rparr>"
  by (simp add: errorHandler_def ErrorResponse_def)

section \<open>The routes of the users\<close>

lemma protect_greg: "protect verify0 world0 (Some ''u1'') = Inr greg"
  by (simp add: protect_def verify0_def world0_def)

lemma protect_sasha: "protect verify0 world0 (Some ''u2'') = Inr sasha"
  by (simp add: protect_def verify0_def world0_def)

lemma protect_admin0: "protect verify0 world0 (Some ''u0'') = Inr admin0"
  by (simp add: protect_def verify0_def world0_def)

text \<open>
  C5. An authenticated account whose role is not in the allow-list \<open>{admin}\<close> of the
  users router gets, on GET /users as on every route of the router, the status 403 with
  \<open>success: false\<close> and the error \<open>User role <role> is not authorized to access this
  route\<close>, where \<open><role>\<close> is its role; the store is not touched.
\<close>

theorem non_admin_forbidden:
  assumes "protect verify w token = Inr u" and "role u \<notin> {''admin''}"
  shows "users_router verify cast um listing token route w =
           (\<lparr>status = 403,
             body = JObj [(''success'', JBool False),
                          (''error'', JStr (''User role '' @ role u @
                                            '' is not authorized to access this route''))]\<rparr>, w)"
  using assms
  by (simp add: users_router_def authorize_def errorHandler_ErrorResponse failure_body_def)

text \<open>The two accounts of the tests: the role \<open>user\<close> and the role \<open>publisher\<close>.\<close>

theorem non_admin_forbidden_witness:
  "protect verify0 world0 (Some ''u1'') = Inr greg \<and> role greg \<notin> {''admin''} \<and>
   users_router verify0 cast0 um0 (JArr []) (Some ''u1'') GET_users world0 =
     (\<lparr>status = 403,
       body = JObj [(''success'', JBool False),
                    (''error'', JStr ''User role user is not authorized to access this route'')]\<rparr>,
      world0) \<and>
   protect verify0 world0 (Some ''u2'') = Inr sasha \<and> role sasha \<notin> {''admin''} \<and>
   users_router verify0 cast0 um0 (JArr []) (Some ''u2'') GET_users world0 =
     (\<lparr>status = 403,
       body = JObj [(''success'', JBool False),
                    (''error'', JStr ''User role publisher is not authorized to access this route'')]\<rparr>,
      world0)"
proof -
  have g: "role greg \<notin> {''admin''}" and s: "role sasha \<notin> {''admin''}"
    by (simp_all add: greg_def sasha_def)
  from non_admin_forbidden [OF protect_greg g, of cast0 um0 "JArr []" GET_users]
       non_admin_forbidden [OF protect_sasha s, of cast0 um0 "JArr []" GET_users]
       protect_greg protect_sasha g s
  show ?thesis by (simp add: greg_def sasha_def)
qed

text \<open>
  C9 as stated fails: the access control of a route runs before its handler. On
  GET /users/12345 an account of the role \<open>user\<close> gets 403 and a request without a token
  gets 401, not 404, although the identifier is malformed.
\<close>

theorem malformed_id_refused_counterexample:
  "cast0 ''12345'' = None \<and>
   users_router verify0 cast0 um0 (JArr []) (Some ''u1'') (GET_user ''12345'') world0 =
     (\<lparr>status = 403,
       body = JObj [(''success'', JBool False),
                    (''error'', JStr ''User role user is not authorized to access this route'')]\<rparr>,
      world0) \<and>
   users_router verify0 cast0 um0 (JArr []) None (GET_user ''12345'') world0 =
     (\<lparr>status = 401,
       body = JObj [(''success'', JBool False),
                    (''error'', JStr ''Not authorized to access this route'')]\<rparr>,
      world0)"
  by (simp add: users_router_def protect_def authorize_def verify0_def cast0_def world0_def
      greg_def errorHandler_ErrorResponse failure_body_def)

text \<open>
  C9 as amended. A request whose path parameter cannot be cast to an identifier and
  which the access control of its route admits gets the status 404 with
  \<open>success: false\<close> and the error \<open>Resource not found\<close>, and the store is as before:
  the cast error that the lookup raises is turned into this response by the error
  handler, so that neither the messages of a validation failure nor the text of the cast
  error reach the client. This holds on GET, PUT and DELETE /users/:id for an
  administrator, whatever the body and the validators of the user schema, and for the
  handlers of GET, PUT and DELETE /reviews/:id for every account.
\<close>

theorem malformed_id_not_found:
  assumes "cast pid = None"
  shows "errorHandler (CastError pid) =
           \<lparr>status = 404,
            body = JObj [(''success'', JBool False), (''error'', JStr ''Resource not found'')]\<rparr> \<and>
         (protect verify w token = Inr a \<and> role a = ''admin'' \<longrightarrow>
            users_router verify cast um listing token (GET_user pid) w =
              (\<lparr>status = 404,
                body = JObj [(''success'', JBool False),
                             (''error'', JStr ''Resource not found'')]\<rparr>, w) \<and>
            users_router verify cast um listing token (PUT_user pid b) w =
              (\<lparr>status = 404,
                body = JObj [(''success'', JBool False),
                             (''error'', JStr ''Resource not found'')]\<rparr>, w) \<and>
            users_router verify cast um listing token (DELETE_user pid) w =
              (\<lparr>status = 404,
                body = JObj [(''success'', JBool False),
                             (''error'', JStr ''Resource not found'')]\<rparr>, w)) \<and>
         respond w (getReview cast pid w) =
           (\<lparr>status = 404,
             body = JObj [(''success'', JBool False), (''error'', JStr ''Resource not found'')]\<rparr>, w) \<and>
         respond w (updateReview cast u pid up w) =
           (\<lparr>status = 404,
             body = JObj [(''success'', JBool False), (''error'', JStr ''Resource not found'')]\<rparr>, w) \<and>
         respond w (deleteReview cast f u pid w) =
           (\<lparr>status = 404,
             body = JObj [(''success'', JBool False), (''error'', JStr ''Resource not found'')]\<rparr>, w)"
  using assms
  by (simp add: users_router_def authorize_def respond_def getUser_def updateUser_def
      deleteUser_def getReview_def updateReview_def deleteReview_def
      findById_def errorHandler_CastError CastError_def failure_body_def)

text \<open>
  The malformed identifier of the tests, \<open>12345\<close>, sent by the administrator and, to the
  handlers of the reviews, by an account of the role \<open>user\<close>; the validators of the
  example would refuse the body of the update.
\<close>

theorem malformed_id_not_found_witness:
  "cast0 ''12345'' = None \<and>
   protect verify0 world0 (Some ''u0'') = Inr admin0 \<and> role admin0 = ''admin'' \<and>
   users_router verify0 cast0 um0 (JArr []) (Some ''u0'') (GET_user ''12345'') world0 =
     (\<lparr>status = 404,
       body = JObj [(''success'', JBool False), (''error'', JStr ''Resource not found'')]\<rparr>, world0) \<and>
   users_router verify0 cast0 um0 (JArr []) (Some ''u0'') (PUT_user ''12345'' ()) world0 =
     (\<lparr>status = 404,
       body = JObj [(''success'', JBool False), (''error'', JStr ''Resource not found'')]\<rparr>, world0) \<and>
   users_router verify0 cast0 um0 (JArr []) (Some ''u0'') (DELETE_user ''12345'') world0 =
     (\<lparr>status = 404,
       body = JObj [(''success'', JBool False), (''error'', JStr ''Resource not found'')]\<rparr>, world0) \<and>
   respond world_r6 (getReview cast0 ''12345'' world_r6) =
     (\<lparr>status = 404,
       body = JObj [(''success'', JBool False), (''error'', JStr ''Resource not found'')]\<rparr>, world_r6) \<and>
   respond world_r6
     (updateReview cast0 greg ''12345''
        \<lparr>new_title = Some ''Had Fun'', new_text = None, new_rating = None\<rparr> world_r6) =
     (\<lparr>status = 404,
       body = JObj [(''success'', JBool False), (''error'', JStr ''Resource not found'')]\<rparr>, world_r6) \<and>
   respond world_r6 (deleteReview cast0 no_faults greg ''12345'' world_r6) =
     (\<lparr>status = 404,
       body = JObj [(''success'', JBool False), (''error'', JStr ''Resource not found'')]\<rparr>, world_r6)"
proof -
  have a: "role admin0 = ''admin''" by (simp add: admin0_def)
  have c: "cast0 ''12345'' = None" by (simp add: cast0_def)
  from malformed_id_not_found
         [where cast = cast0 and pid = "''12345''" and verify = verify0 and w = world0 and
            token = "Some ''u0''" and a = admin0 and um = um0 and listing = "JArr []" and b = "()",
          OF c]
       malformed_id_not_found
         [where cast = cast0 and pid = "''12345''" and w = world_r6 and u = greg and
            f = no_faults and
            up = "\<lparr>new_title = Some ''Had Fun'', new_text = None, new_rating = None\<rparr>" and
            um = um0,
          OF c]
       protect_admin0 a c
  show ?thesis by simp
qed

text \<open>
  C10. For a well-formed identifier that is no user, GET /users/:id as administrator
  answers 200 with \<open>success: true\<close> and \<open>data: null\<close>, while DELETE /users/:id for the
  same identifier answers 404 with the error \<open>Resource not found\<close>. Neither changes the
  store.
\<close>

theorem missing_user_lookup_and_delete:
  assumes "protect verify w token = Inr u" and "role u = ''admin''"
    and "cast pid = Some i" and "users w i = None"
  shows "users_router verify cast um listing token (GET_user pid) w =
           (\<lparr>status = 200,
             body = JObj [(''success'', JBool True), (''data'', JNull)]\<rparr>, w) \<and>
         users_router verify cast um listing token (DELETE_user pid) w =
           (\<lparr>status = 404,
             body = JObj [(''success'', JBool False), (''error'', JStr ''Resource not found'')]\<rparr>, w)"
  using assms
  by (simp add: users_router_def authorize_def respond_def getUser_def deleteUser_def
      findById_def errorHandler_ErrorResponse success_body_def failure_body_def)

theorem missing_user_lookup_and_delete_witness:
  "protect verify0 world0 (Some ''u0'') = Inr admin0 \<and> role admin0 = ''admin'' \<and>
   cast0 ''u9'' = Some ''u9'' \<and> users world0 ''u9'' = None \<and>
   users_router verify0 cast0 um0 (JArr []) (Some ''u0'') (GET_user ''u9'') world0 =
     (\<lparr>status = 200, body = JObj [(''success'', JBool True), (''data'', JNull)]\<rparr>, world0) \<and>
   users_router verify0 cast0 um0 (JArr []) (Some ''u0'') (DELETE_user ''u9'') world0 =
     (\<lparr>status = 404,
       body = JObj [(''success'', JBool False), (''error'', JStr ''Resource not found'')]\<rparr>, world0)"
proof -
  have a: "role admin0 = ''admin''" by (simp add: admin0_def)
  have c: "cast0 ''u9'' = Some ''u9''" by (simp add: cast0_def)
  have n: "users world0 ''u9'' = None" by (simp add: world0_def)
  from missing_user_lookup_and_delete
         [where cast = cast0 and pid = "''u9''" and um = um0 and listing = "JArr []",
          OF protect_admin0 a c n]
       protect_admin0 a c n
  show ?thesis by simp
qed

section \<open>Reviews: ownership and the unique index\<close>

text \<open>
  C6. An authenticated account that is not the owner of a stored review and does not
  hold the administrator role cannot update or delete it: both requests end with the
  status 401, \<open>success: false\<close> and the error \<open>Not authorized to access this route\<close>,
  and the store is unchanged.
\<close>

theorem non_owner_cannot_change_review:
  assumes "cast pid = Some i" and "find_review w i = Some r"
    and "user_id u \<noteq> review_user r" and "role u \<noteq> ''admin''"
  shows "respond w (updateReview cast u pid up w) =
           (\<lparr>status = 401,
             body = JObj [(''success'', JBool False),
                          (''error'', JStr ''Not authorized to access this route'')]\<rparr>, w) \<and>
         respond w (deleteReview cast f u pid w) =
           (\<lparr>status = 401,
             body = JObj [(''success'', JBool False),
                          (''error'', JStr ''Not authorized to access this route'')]\<rparr>, w)"
  using assms
  by (simp add: respond_def updateReview_def deleteReview_def ownership_gate_def
      errorHandler_ErrorResponse failure_body_def)

theorem non_owner_cannot_change_review_witness:
  "cast0 ''r1'' = Some ''r1'' \<and> find_review world_r6 ''r1'' = Some review6 \<and>
   user_id sasha \<noteq> review_user review6 \<and> role sasha \<noteq> ''admin'' \<and>
   respond world_r6
     (updateReview cast0 sasha ''r1''
        \<lparr>new_title = Some ''Unauthorized Update'', new_text = None, new_rating = None\<rparr> world_r6) =
     (\<lparr>status = 401,
       body = JObj [(''success'', JBool False),
                    (''error'', JStr ''Not authorized to access this route'')]\<rparr>, world_r6) \<and>
   respond world_r6 (deleteReview cast0 no_faults sasha ''r1'' world_r6) =
     (\<lparr>status = 401,
       body = JObj [(''success'', JBool False),
                    (''error'', JStr ''Not authorized to access this route'')]\<rparr>, world_r6)"
proof -
  have c: "cast0 ''r1'' = Some ''r1''" by (simp add: cast0_def)
  have r: "find_review world_r6 ''r1'' = Some review6"
    by (simp add: find_review_def world_r6_def world0_def review6_def)
  have o: "user_id sasha \<noteq> review_user review6" by (simp add: sasha_def review6_def)
  have a: "role sasha \<noteq> ''admin''" by (simp add: sasha_def)
  from non_owner_cannot_change_review
         [where cast = cast0 and pid = "''r1''" and f = no_faults and
            up = "\<lparr>new_title = Some ''Unauthorized Update'', new_text = None, new_rating = None\<rparr>",
          OF c r o a]
       c r o a
  show ?thesis by simp
qed

text \<open>The maintainers and the hooks never touch the reviews themselves.\<close>

lemma reviews_drop_getAverageRating [simp]:
  "reviews (drop_promise w (getAverageRating f b w)) = reviews w"
  by (simp add: drop_promise_def getAverageRating_def aggregate_def findByIdAndUpdate_def
      unhandledRejection_def console_log_def Let_def
      split: option.splits list.splits sum.splits)

lemma reviews_drop_getAverageCost [simp]:
  "reviews (drop_promise w (getAverageCost f b w)) = reviews w"
  by (simp add: drop_promise_def getAverageCost_def aggregate_def findByIdAndUpdate_def
      unhandledRejection_def console_log_def Let_def
      split: option.splits list.splits sum.splits)

lemma reviews_review_post_save [simp]: "reviews (review_post_save f r w) = reviews w"
  by (simp add: review_post_save_def)

lemma reviews_save_course [simp]: "reviews (save_course f c w) = reviews w"
  by (simp add: save_course_def course_post_save_def)

lemma reviews_remove_course [simp]: "reviews (remove_course f c w) = reviews w"
  by (cases "remove_hook f")
     (simp_all add: remove_course_def delete_course_def course_pre_remove_def)

lemma reviews_remove_review [simp]:
  "reviews (remove_review f r w) = filter (\<lambda>x. review_id x \<noteq> review_id r) (reviews w)"
  by (cases "remove_hook f")
     (simp_all add: remove_review_def delete_review_def review_pre_remove_def)

lemma insert_review_Inr:
  assumes "insert_review f r w = Inr w'"
  shows "\<not> (\<exists>x \<in> set (reviews w). same_pair x r)" and "reviews w' = reviews w @ [r]"
  using assms by (auto simp: insert_review_def split: if_splits)

lemma Review_create_Inr:
  assumes "Review_create validate f r w = Inr w'"
  shows "validate r = []" and "\<not> (\<exists>x \<in> set (reviews w). same_pair x r)"
    and "reviews w' = reviews w @ [r]"
  using assms insert_review_Inr [of f r w w']
  by (auto simp: Review_create_def split: if_splits)

lemma same_pair_sym: "same_pair x r \<Longrightarrow> same_pair r x"
  by (simp add: same_pair_def)

text \<open>The index holds in every state that a sequence of mutations reaches.\<close>

lemma pairs_unique_insert_review:
  "pairs_unique w \<Longrightarrow> insert_review f r w = Inr w' \<Longrightarrow> pairs_unique w'"
  using insert_review_Inr [of f r w w']
  by (auto simp: pairs_unique_def same_pair_def)

lemma pairs_unique_apply_mutation:
  "pairs_unique w \<Longrightarrow> pairs_unique (apply_mutation f m w)"
proof (cases m)
  case (CreateReview r)
  assume "pairs_unique w"
  then show ?thesis
    using CreateReview pairs_unique_insert_review [of w f r]
    by (cases "insert_review f r w") simp_all
next
  case (RemoveReview r)
  assume "pairs_unique w"
  then show ?thesis
    using RemoveReview by (simp add: pairs_unique_def distinct_map_filter)
qed (simp_all add: pairs_unique_def)

lemma pairs_unique_run: "pairs_unique w \<Longrightarrow> pairs_unique (run f ms w)"
  by (induction ms arbitrary: w) (simp_all add: pairs_unique_apply_mutation)

lemma create_review6:
  "Review_create (\<lambda>r. []) no_faults review6 world0 = Inr world_r6"
  by (simp add: Review_create_def maintainer_defs double_defs example_defs world_r6_def)

text \<open>
  C7. After a review by an account for a bootcamp has been created, a second valid
  review with the same account and bootcamp is refused with the duplicate key error,
  which the error handler answers with the status 400, \<open>success: false\<close> and the error
  \<open>Duplicate field value entered\<close>. Nothing is written: the first review is the only
  stored one of its pair, and a store without two reviews of one pair stays so.
\<close>

theorem second_review_is_duplicate:
  assumes "Review_create validate f r1 w = Inr w1"
    and "same_pair r2 r1" and "validate r2 = []"
  shows "Review_create validate f r2 w1 = Inl duplicate_key \<and>
         errorHandler duplicate_key =
           \<lparr>status = 400,
            body = JObj [(''success'', JBool False),
                         (''error'', JStr ''Duplicate field value entered'')]\<rparr> \<and>
         filter (\<lambda>x. same_pair x r1) (reviews w1) = [r1] \<and>
         (pairs_unique w \<longrightarrow> pairs_unique w1)"
proof -
  note c = Review_create_Inr [OF assms(1)]
  have "same_pair r1 r2" using assms(2) by (rule same_pair_sym)
  then have "\<exists>x \<in> set (reviews w1). same_pair x r2" using c(3) by auto
  then have 1: "Review_create validate f r2 w1 = Inl duplicate_key"
    using assms(3) by (simp add: Review_create_def insert_review_def)
  have 2: "errorHandler duplicate_key =
             \<lparr>status = 400,
              body = JObj [(''success'', JBool False),
                           (''error'', JStr ''Duplicate field value entered'')]\<rparr>"
    by (simp add: errorHandler_duplicate_key duplicate_key_def failure_body_def)
  have "filter (\<lambda>x. same_pair x r1) (reviews w) = []"
    using c(2) by (auto simp: filter_empty_conv)
  then have 3: "filter (\<lambda>x. same_pair x r1) (reviews w1) = [r1]"
    using c(3) by (simp add: same_pair_def)
  have 4: "pairs_unique w \<longrightarrow> pairs_unique w1"
    using c(2,3) by (auto simp: pairs_unique_def same_pair_def)
  from 1 2 3 4 show ?thesis by blast
qed

text \<open>The two reviews of the tests, ratings 6 and 8, by one account for one bootcamp.\<close>

theorem second_review_is_duplicate_witness:
  "Review_create (\<lambda>r. []) no_faults review6 world0 = Inr world_r6 \<and>
   same_pair review8 review6 \<and>
   Review_create (\<lambda>r. []) no_faults review8 world_r6 = Inl duplicate_key \<and>
   errorHandler duplicate_key =
     \<lparr>status = 400,
      body = JObj [(''success'', JBool False),
                   (''error'', JStr ''Duplicate field value entered'')]\<rparr> \<and>
   filter (\<lambda>x. same_pair x review6) (reviews world_r6) = [review6] \<and>
   pairs_unique world0 \<and> pairs_unique world_r6"
proof -
  have s: "same_pair review8 review6" by (simp add: same_pair_def review8_def review6_def)
  have v: "(\<lambda>r::review. [] :: string list) review8 = []" by simp
  have u: "pairs_unique world0" by (simp add: pairs_unique_def world0_def)
  from second_review_is_duplicate [OF create_review6 s v] create_review6 s u
  show ?thesis by simp
qed

section \<open>The navigation metadata of a listing\<close>

lemma advancedResults_pagination:
  "\<exists>c d. advancedResults q rows =
     JObj [(''success'', JBool True), (''count'', c),
           (''pagination'', JObj (pagination q (int (length rows)))), (''data'', d)]"
  by (simp add: advancedResults_def Let_def)

text \<open>
  C1. The \<open>pagination\<close> object of a listing has the key \<open>next\<close> exactly when
  \<open>skip + limit < total_count\<close>, and then its value is \<open>{page: page + 1, limit}\<close>; it has
  the key \<open>prev\<close> exactly when \<open>page > 1\<close>, and then its value is \<open>{page: page - 1, limit}\<close>.
  A side that does not apply has no key at all: the object holds no other key and no key
  twice.
\<close>

theorem pagination_next_prev:
  "(''next'' \<in> fst ` set (pagination q n) \<longleftrightarrow> skip_of q + limit_of q < n) \<and>
   (map_of (pagination q n) ''next'' = Some (page_ref (page_of q + 1) (limit_of q)) \<longleftrightarrow>
      skip_of q + limit_of q < n) \<and>
   (''prev'' \<in> fst ` set (pagination q n) \<longleftrightarrow> 1 < page_of q) \<and>
   (map_of (pagination q n) ''prev'' = Some (page_ref (page_of q - 1) (limit_of q)) \<longleftrightarrow>
      1 < page_of q) \<and>
   fst ` set (pagination q n) \<subseteq> {''next'', ''prev''} \<and>
   distinct (map fst (pagination q n))"
  by (simp add: pagination_def)

text \<open>
  Four documents in pages of three: the first page has \<open>next\<close> only (as in the test of
  the bootcamps), the second page has \<open>prev\<close> only.
\<close>

theorem pagination_next_prev_witness:
  "pagination \<lparr>page_param = Some 1, limit_param = Some 3\<rparr> 4 =
     [(''next'', JObj [(''page'', JNum 2), (''limit'', JNum 3)])] \<and>
   pagination \<lparr>page_param = Some 2, limit_param = Some 3\<rparr> 4 =
     [(''prev'', JObj [(''page'', JNum 1), (''limit'', JNum 3)])] \<and>
   (''next'' \<in> fst ` set (pagination \<lparr>page_param = Some 2, limit_param = Some 3\<rparr> 4) \<longleftrightarrow>
      skip_of \<lparr>page_param = Some 2, limit_param = Some 3\<rparr> +
      limit_of \<lparr>page_param = Some 2, limit_param = Some 3\<rparr> < 4)"
  using pagination_next_prev [of "\<lparr>page_param = Some 2, limit_param = Some 3\<rparr>" 4]
  by (simp add: pagination_def page_ref_def page_of_def limit_of_def skip_of_def)

end
